theory Spec2Isabelle
  imports Main "HOL-Library.Sublist"
begin

section \<open>Python values of a fetched row\<close>

text \<open>
  \<^verbatim>\<open>scripts/testdata.py\<close> fetches rows from four tables and prints one MERGE statement
  per row. A fetched field is a Python value: \<^verbatim>\<open>None\<close> for SQL NULL, an \<^verbatim>\<open>int\<close>, or a
  \<^verbatim>\<open>str\<close>. Strings are character lists; every character the script inspects is ASCII.
  A creation time enters as the text \<^verbatim>\<open>str\<close> gives for it, the one operation the script
  applies to that column.
\<close>

datatype pyval = PNone | PInt int | PStr string

datatype error = TypeError | AttributeError

text \<open>The characters the script names in its string literals.\<close>

definition nl :: char where "nl = CHR 0x0A"
definition tab :: char where "tab = CHR 0x09"
definition sq :: char where "sq = CHR 0x27"
definition dq :: char where "dq = CHR 0x22"
definition bs :: char where "bs = CHR 0x5C"

subsection \<open>\<^verbatim>\<open>str(x)\<close>, as an f-string field \<^verbatim>\<open>{x}\<close> renders it\<close>

definition digit_char :: "nat \<Rightarrow> char" where
  "digit_char d = ''0123456789'' ! d"

fun digits :: "nat \<Rightarrow> string" where
  "digits n = (if n < 10 then [digit_char n] else digits (n div 10) @ [digit_char (n mod 10)])"

declare digits.simps [simp del]

definition str_int :: "int \<Rightarrow> string" where
  "str_int i = (if i < 0 then CHR ''-'' # digits (nat (- i)) else digits (nat i))"

fun str :: "pyval \<Rightarrow> string" where
  "str PNone = ''None''"
| "str (PInt i) = str_int i"
| "str (PStr s) = s"

text \<open>A rendered field between the two single quotes the f-string template puts around it.\<close>

definition quoted :: "string \<Rightarrow> string" where
  "quoted s = sq # s @ [sq]"

subsection \<open>\<^verbatim>\<open>a + b\<close> and \<^verbatim>\<open>s.replace(old, new)\<close>\<close>

text \<open>
  \<^verbatim>\<open>+\<close> concatenates two strings and adds two integers; every other pairing of these
  values raises \<^verbatim>\<open>TypeError\<close>.
\<close>

fun py_add :: "pyval \<Rightarrow> pyval \<Rightarrow> error + pyval" where
  "py_add (PStr a) (PStr b) = Inr (PStr (a @ b))"
| "py_add (PInt a) (PInt b) = Inr (PInt (a + b))"
| "py_add _ _ = Inl TypeError"

text \<open>
  \<^verbatim>\<open>str.replace\<close>: scanning from the left, every non-overlapping occurrence of
  \<^verbatim>\<open>old\<close> becomes \<^verbatim>\<open>new\<close>; an empty \<^verbatim>\<open>old\<close> matches before every character and at
  the end.
\<close>

function replace :: "string \<Rightarrow> string \<Rightarrow> string \<Rightarrow> string" where
  "replace old new s =
     (if old = [] then (case s of [] \<Rightarrow> new | c # cs \<Rightarrow> new @ c # replace old new cs)
      else if s = [] then []
      else if prefix old s then new @ replace old new (drop (length old) s)
      else hd s # replace old new (tl s))"
  by pat_completeness auto
termination
  by (relation "measure (\<lambda>(old, new, s). length s)") auto

declare replace.simps [simp del]

text \<open>The method call on a fetched value: only a \<^verbatim>\<open>str\<close> has \<^verbatim>\<open>replace\<close>.\<close>

fun py_replace :: "string \<Rightarrow> string \<Rightarrow> pyval \<Rightarrow> error + pyval" where
  "py_replace old new (PStr s) = Inr (PStr (replace old new s))"
| "py_replace old new _ = Inl AttributeError"

text \<open>An exception raised by one step skips the steps after it.\<close>

fun and_then :: "error + 'a \<Rightarrow> ('a \<Rightarrow> error + 'b) \<Rightarrow> error + 'b" where
  "and_then (Inl e) f = Inl e"
| "and_then (Inr x) f = f x"

section \<open>The four loop bodies\<close>

text \<open>
  Lines 38 and 51, the same chain in both loops:
  \<^verbatim>\<open>val.replace("\n", "\\n").replace("\t", "\\t").replace("'", "\'").replace("\"", "\\\"")\<close>.
  In Python source \<^verbatim>\<open>"\\n"\<close> is backslash, n; \<^verbatim>\<open>"\\\""\<close> is backslash, double quote;
  and \<^verbatim>\<open>"\'"\<close> is the single quote alone.
\<close>

definition escape :: "string \<Rightarrow> string" where
  "escape val =
     replace [dq] [bs, dq]
       (replace [sq] [sq]
         (replace [tab] [bs, CHR ''t'']
           (replace [nl] [bs, CHR ''n''] val)))"

definition escape_val :: "pyval \<Rightarrow> error + pyval" where
  "escape_val val =
     and_then (py_replace [nl] [bs, CHR ''n''] val) (\<lambda>v1.
     and_then (py_replace [tab] [bs, CHR ''t''] v1) (\<lambda>v2.
     and_then (py_replace [sq] [sq] v2) (\<lambda>v3.
     py_replace [dq] [bs, dq] v3)))"

text \<open>Lines 16-18, the tag loop.\<close>

definition formatTag :: "pyval \<Rightarrow> pyval \<Rightarrow> string" where
  "formatTag ext_id val =
     ''MERGE (:Tag{extId='' @ quoted (str ext_id) @ '', value='' @ quoted (str val) @ ''})''"

text \<open>Lines 24-27, the identity loop.\<close>

definition formatIdentity :: "pyval \<Rightarrow> pyval \<Rightarrow> pyval \<Rightarrow> string" where
  "formatIdentity ext_id email handle =
     ''MERGE (:Identity:User{extId='' @ quoted (str ext_id) @ '', email='' @ quoted (str email)
       @ '', handle='' @ quoted (str handle) @ ''})''"

text \<open>Line 33: \<^verbatim>\<open>val = row[1] + "\n\n" + row[2]\<close>, associated to the left.\<close>

definition discussion_body :: "pyval \<Rightarrow> pyval \<Rightarrow> error + pyval" where
  "discussion_body title header = and_then (py_add title (PStr [nl, nl])) (\<lambda>v. py_add v header)"

text \<open>Lines 32-39, the discussion loop.\<close>

definition formatDiscussionPost ::
  "pyval \<Rightarrow> pyval \<Rightarrow> pyval \<Rightarrow> pyval \<Rightarrow> pyval \<Rightarrow> pyval \<Rightarrow> error + string" where
  "formatDiscussionPost ext_id title header tag_id user_id created_at =
     and_then (discussion_body title header) (\<lambda>val0.
     and_then (escape_val val0) (\<lambda>val.
     Inr (''MERGE (:Identity:User{extId='' @ quoted (str user_id)
          @ ''})-[posted{created_at:'' @ quoted (str created_at)
          @ ''}]->(:Post{extId='' @ quoted (str ext_id) @ '', value='' @ quoted (str val)
          @ ''})-[is_tagged_with]->(:Tag{extId: '' @ quoted (str tag_id) @ ''})'')))"

text \<open>Lines 45-52, the post loop.\<close>

definition formatPost ::
  "pyval \<Rightarrow> pyval \<Rightarrow> pyval \<Rightarrow> pyval \<Rightarrow> pyval \<Rightarrow> error + string" where
  "formatPost ext_id text user_id created_at in_reply_to_id =
     and_then (escape_val text) (\<lambda>val.
     Inr (''MERGE (:Identity:User{extId='' @ quoted (str user_id)
          @ ''})-[posted{created_at:'' @ quoted (str created_at)
          @ ''}]->(:Post{extId='' @ quoted (str ext_id)
          @ '', inReplyToExtId='' @ quoted (str in_reply_to_id)
          @ '', value='' @ quoted (str val) @ ''})''))"

section \<open>The script\<close>

text \<open>
  Rows are the tuples \<^verbatim>\<open>fetchall\<close> returns, one component per selected column. Standard
  output is the list of lines printed so far; a loop stops at the first row whose body
  raises, and the exception ends the script.
\<close>

type_synonym tag_row = "pyval \<times> pyval"
type_synonym identity_row = "pyval \<times> pyval \<times> pyval"
type_synonym discussion_row = "pyval \<times> pyval \<times> pyval \<times> pyval \<times> pyval \<times> pyval"
type_synonym post_row = "pyval \<times> pyval \<times> pyval \<times> pyval \<times> pyval"

definition tag_stmt :: "tag_row \<Rightarrow> error + string" where
  "tag_stmt row = (case row of (r0, r1) \<Rightarrow> Inr (formatTag r0 r1))"

definition identity_stmt :: "identity_row \<Rightarrow> error + string" where
  "identity_stmt row = (case row of (r0, r1, r2) \<Rightarrow> Inr (formatIdentity r0 r1 r2))"

definition discussion_stmt :: "discussion_row \<Rightarrow> error + string" where
  "discussion_stmt row =
     (case row of (r0, r1, r2, r3, r4, r5) \<Rightarrow> formatDiscussionPost r0 r1 r2 r3 r4 r5)"

definition post_stmt :: "post_row \<Rightarrow> error + string" where
  "post_stmt row = (case row of (r0, r1, r2, r3, r4) \<Rightarrow> formatPost r0 r1 r2 r3 r4)"

fun for_rows :: "('r \<Rightarrow> error + string) \<Rightarrow> 'r list \<Rightarrow> string list \<Rightarrow> string list \<times> error option"
  where
  "for_rows body [] out = (out, None)"
| "for_rows body (row # rows) out =
     (case body row of
        Inl e \<Rightarrow> (out, Some e)
      | Inr line \<Rightarrow> for_rows body rows (out @ [line]))"

text \<open>The next loop runs only when the one before it ended without an exception.\<close>

definition next_loop ::
  "string list \<times> error option \<Rightarrow> (string list \<Rightarrow> string list \<times> error option)
     \<Rightarrow> string list \<times> error option" where
  "next_loop st k = (case st of (out, None) \<Rightarrow> k out | (out, Some e) \<Rightarrow> (out, Some e))"

definition script ::
  "tag_row list \<Rightarrow> identity_row list \<Rightarrow> discussion_row list \<Rightarrow> post_row list
     \<Rightarrow> string list \<times> error option" where
  "script tags identities discussions posts =
     next_loop (next_loop (next_loop (for_rows tag_stmt tags [])
       (for_rows identity_stmt identities))
       (for_rows discussion_stmt discussions))
       (for_rows post_stmt posts)"

section \<open>The specification's vocabulary\<close>

text \<open>
  The escaping contract in the specification's words: a global literal substitution replaces
  every occurrence of one character, and four of them are applied in order. The third
  replaces the single quote by the script's literal \<^verbatim>\<open>"\'"\<close>, the single quote alone.
\<close>

definition substitute :: "char \<Rightarrow> string \<Rightarrow> string \<Rightarrow> string" where
  "substitute c new s = concat (map (\<lambda>x. if x = c then new else [x]) s)"

definition four_step_escape :: "string \<Rightarrow> string" where
  "four_step_escape body =
     substitute dq [bs, dq]
       (substitute sq [sq]
         (substitute tab [bs, CHR ''t'']
           (substitute nl [bs, CHR ''n''] body)))"

text \<open>What the whole chain does to one character.\<close>

definition esc_char :: "char \<Rightarrow> string" where
  "esc_char c = (if c = nl then [bs, CHR ''n''] else if c = tab then [bs, CHR ''t'']
     else if c = dq then [bs, dq] else [c])"

text \<open>
  Of the per-row results in processing order: the lines up to the first raised exception,
  and that exception.
\<close>

fun emitted :: "(error + string) list \<Rightarrow> string list" where
  "emitted [] = []"
| "emitted (Inl e # rs) = []"
| "emitted (Inr line # rs) = line # emitted rs"

fun fault :: "(error + string) list \<Rightarrow> error option" where
  "fault [] = None"
| "fault (Inl e # rs) = Some e"
| "fault (Inr line # rs) = fault rs"

text \<open>Rows whose free-text columns hold text.\<close>

definition is_text :: "pyval \<Rightarrow> bool" where
  "is_text v = (case v of PStr s \<Rightarrow> True | _ \<Rightarrow> False)"

definition discussion_text :: "discussion_row \<Rightarrow> bool" where
  "discussion_text row = (case row of (r0, r1, r2, r3, r4, r5) \<Rightarrow> is_text r1 \<and> is_text r2)"

definition post_text :: "post_row \<Rightarrow> bool" where
  "post_text row = (case row of (r0, r1, r2, r3, r4) \<Rightarrow> is_text r1)"

definition results ::
  "tag_row list \<Rightarrow> identity_row list \<Rightarrow> discussion_row list \<Rightarrow> post_row list
     \<Rightarrow> (error + string) list" where
  "results tags identities discussions posts =
     map tag_stmt tags @ map identity_stmt identities
       @ map discussion_stmt discussions @ map post_stmt posts"

section \<open>Properties of the escaping chain and the loops\<close>

lemma replace_Nil: "replace [c] new [] = []"
  by (simp add: replace.simps)

lemma replace_Cons:
  "replace [c] new (x # xs) = (if x = c then new else [x]) @ replace [c] new xs"
  by (subst replace.simps) simp

lemma replace_char: "replace [c] new s = substitute c new s"
  by (induction s) (simp_all add: replace_Nil replace_Cons substitute_def)

lemma substitute_same: "substitute c [c] s = s"
  by (induction s) (simp_all add: substitute_def)

lemma escape_four_step: "escape s = four_step_escape s"
  by (simp add: escape_def four_step_escape_def replace_char)

lemma substitute_append: "substitute c new (xs @ ys) = substitute c new xs @ substitute c new ys"
  by (simp add: substitute_def)

lemma escape_append: "escape (xs @ ys) = escape xs @ escape ys"
  by (simp add: escape_four_step four_step_escape_def substitute_append)

lemma escape_single: "escape [c] = esc_char c"
  by (simp add: escape_four_step four_step_escape_def substitute_def esc_char_def
      nl_def tab_def dq_def bs_def sq_def)

lemma escape_Nil: "escape [] = []"
  by (simp add: escape_four_step four_step_escape_def substitute_def)

lemma escape_Cons: "escape (c # cs) = esc_char c @ escape cs"
  using escape_append [of "[c]" cs] by (simp add: escape_single)

lemma escape_concat: "escape s = concat (map esc_char s)"
  by (induction s) (simp_all add: escape_Nil escape_Cons)

lemma escape_val_str: "escape_val (PStr s) = Inr (PStr (escape s))"
  by (simp add: escape_val_def escape_def)

lemma escape_val_none: "escape_val PNone = Inl AttributeError"
  by (simp add: escape_val_def)

lemma discussion_body_str:
  "discussion_body (PStr t) (PStr h) = Inr (PStr (t @ [nl, nl] @ h))"
  by (simp add: discussion_body_def)

lemma discussion_body_cases:
  "discussion_body title header =
     (case title of
        PStr t \<Rightarrow> (case header of PStr h \<Rightarrow> Inr (PStr (t @ [nl, nl] @ h)) | _ \<Rightarrow> Inl TypeError)
      | _ \<Rightarrow> Inl TypeError)"
  by (cases title; cases header) (simp_all add: discussion_body_def)

lemma formatPost_str:
  "formatPost i (PStr body) u c r =
     Inr (''MERGE (:Identity:User{extId='' @ quoted (str u)
          @ ''})-[posted{created_at:'' @ quoted (str c)
          @ ''}]->(:Post{extId='' @ quoted (str i)
          @ '', inReplyToExtId='' @ quoted (str r)
          @ '', value='' @ quoted (escape body) @ ''})'')"
  by (simp add: formatPost_def escape_val_str)

lemma formatDiscussionPost_str:
  "formatDiscussionPost i (PStr t) (PStr h) g u c =
     Inr (''MERGE (:Identity:User{extId='' @ quoted (str u)
          @ ''})-[posted{created_at:'' @ quoted (str c)
          @ ''}]->(:Post{extId='' @ quoted (str i)
          @ '', value='' @ quoted (escape (t @ [nl, nl] @ h))
          @ ''})-[is_tagged_with]->(:Tag{extId: '' @ quoted (str g) @ ''})'')"
  by (simp add: formatDiscussionPost_def discussion_body_str escape_val_str)

lemma esc_char_suffix: "suffix [bs] (zs @ esc_char c) = (c = bs)"
  by (auto simp: esc_char_def suffix_def bs_def nl_def tab_def dq_def)

lemma esc_char_no_nl: "nl \<notin> set (esc_char c)"
  by (simp add: esc_char_def nl_def bs_def dq_def)

lemma esc_char_no_tab: "tab \<notin> set (esc_char c)"
  by (simp add: esc_char_def tab_def bs_def dq_def)

lemma escape_no_nl: "nl \<notin> set (escape s)"
  by (simp add: escape_concat esc_char_no_nl)

lemma escape_no_tab: "tab \<notin> set (escape s)"
  by (simp add: escape_concat esc_char_no_tab)

lemma for_rows_emitted:
  "for_rows body rows out = (out @ emitted (map body rows), fault (map body rows))"
proof (induction rows arbitrary: out)
  case Nil
  show ?case by simp
next
  case (Cons row rows)
  show ?case by (cases "body row") (simp_all add: Cons.IH)
qed

lemma emitted_append:
  "emitted (xs @ ys) = (case fault xs of None \<Rightarrow> emitted xs @ emitted ys | Some e \<Rightarrow> emitted xs)"
  by (induction xs rule: emitted.induct) (simp_all split: option.splits)

lemma fault_append:
  "fault (xs @ ys) = (case fault xs of None \<Rightarrow> fault ys | Some e \<Rightarrow> Some e)"
  by (induction xs rule: fault.induct) simp_all

lemma next_loop_for_rows:
  "next_loop (emitted xs, fault xs) (for_rows body rows)
     = (emitted (xs @ map body rows), fault (xs @ map body rows))"
  by (cases "fault xs") (simp_all add: next_loop_def for_rows_emitted emitted_append fault_append)

lemma script_results:
  "script tags ids discs posts
     = (emitted (results tags ids discs posts), fault (results tags ids discs posts))"
proof -
  have "for_rows tag_stmt tags [] = (emitted (map tag_stmt tags), fault (map tag_stmt tags))"
    by (simp add: for_rows_emitted)
  then show ?thesis
    by (simp add: script_def results_def next_loop_for_rows)
qed

lemma all_Inr_emitted:
  "list_all (\<lambda>r. \<not> isl r) rs \<Longrightarrow> map Inr (emitted rs) = rs \<and> fault rs = None"
  by (induction rs rule: emitted.induct) simp_all

lemma discussion_text_Inr: "discussion_text row \<Longrightarrow> \<not> isl (discussion_stmt row)"
  by (auto simp: discussion_text_def discussion_stmt_def is_text_def formatDiscussionPost_def
      discussion_body_def escape_val_def split: prod.splits pyval.splits)

lemma post_text_Inr: "post_text row \<Longrightarrow> \<not> isl (post_stmt row)"
  by (auto simp: post_text_def post_stmt_def is_text_def formatPost_def
      escape_val_def split: prod.splits pyval.splits)

lemma results_all_Inr:
  assumes "list_all discussion_text discs" and "list_all post_text posts"
  shows "list_all (\<lambda>r. \<not> isl r) (results tags ids discs posts)"
proof -
  have "list_all (\<lambda>r. \<not> isl r) (map tag_stmt tags)"
    by (simp add: list_all_iff tag_stmt_def split: prod.splits)
  moreover have "list_all (\<lambda>r. \<not> isl r) (map identity_stmt ids)"
    by (simp add: list_all_iff identity_stmt_def split: prod.splits)
  moreover have "list_all (\<lambda>r. \<not> isl r) (map discussion_stmt discs)"
    using assms(1) by (simp add: list_all_iff discussion_text_Inr)
  moreover have "list_all (\<lambda>r. \<not> isl r) (map post_stmt posts)"
    using assms(2) by (simp add: list_all_iff post_text_Inr)
  ultimately show ?thesis
    by (simp add: results_def)
qed

section \<open>The claims\<close>

text \<open>
  Claim C1. For every body text, the chain of \<^verbatim>\<open>replace\<close> calls equals four global
  literal substitutions in order: newline to backslash-n, tab to backslash-t, the
  single-quote step, double quote to backslash-doublequote. The value emitted by the post
  loop for text \<open>body\<close>, and by the discussion loop for title \<open>t\<close> and header \<open>h\<close>, is
  exactly that result between single quotes, with nothing else done to it.
\<close>

theorem escaping_is_four_substitutions:
  "escape body = four_step_escape body
   \<and> formatPost i (PStr body) u c r =
       Inr (''MERGE (:Identity:User{extId='' @ quoted (str u)
          @ ''})-[posted{created_at:'' @ quoted (str c)
          @ ''}]->(:Post{extId='' @ quoted (str i)
          @ '', inReplyToExtId='' @ quoted (str r)
          @ '', value='' @ quoted (four_step_escape body) @ ''})'')
   \<and> formatDiscussionPost i (PStr t) (PStr h) g u c =
       Inr (''MERGE (:Identity:User{extId='' @ quoted (str u)
          @ ''})-[posted{created_at:'' @ quoted (str c)
          @ ''}]->(:Post{extId='' @ quoted (str i)
          @ '', value='' @ quoted (four_step_escape (t @ [nl, nl] @ h))
          @ ''})-[is_tagged_with]->(:Tag{extId: '' @ quoted (str g) @ ''})'')"
  by (simp only: formatPost_str formatDiscussionPost_str escape_four_step simp_thms)

text \<open>
  Claim C2. The third step returns its input unchanged. Every single quote of the body
  appears in the escaped text as the single quote alone, between the escaped text before
  it and the escaped text after it; and the escaped text before it ends in a backslash only
  when the body had a backslash there, so the step puts none in front of the quote.
\<close>

theorem single_quote_step_is_noop:
  "replace [sq] [sq] s = s
   \<and> escape (xs @ sq # ys) = escape xs @ sq # escape ys
   \<and> suffix [bs] (escape xs) = suffix [bs] xs"
proof -
  have a: "replace [sq] [sq] s = s"
    by (simp add: replace_char substitute_same)
  have "esc_char sq = [sq]"
    by (simp add: esc_char_def sq_def nl_def tab_def dq_def)
  then have b: "escape (xs @ sq # ys) = escape xs @ sq # escape ys"
    by (simp add: escape_append escape_Cons)
  have c: "suffix [bs] (escape xs) = suffix [bs] xs"
  proof (cases xs rule: rev_cases)
    case Nil
    then show ?thesis by (simp add: escape_Nil)
  next
    case (snoc zs z)
    then show ?thesis
      by (auto simp: escape_append escape_single esc_char_suffix)
  qed
  from a b c show ?thesis by simp
qed

text \<open>
  Claim C3. For a discussion row with title \<open>t\<close> and header \<open>h\<close>, the line is the
  three-node MERGE pattern with the user id, the creation time, the row id, the escaped
  body and the tag id, each between single quotes; the Tag node's property is written
  \<^verbatim>\<open>extId: \<close> with a colon and a space where the other nodes have \<^verbatim>\<open>extId=\<close>.
\<close>

theorem discussion_line_format:
  "formatDiscussionPost i (PStr t) (PStr h) g u c =
     Inr (''MERGE (:Identity:User{extId='' @ [sq] @ str u @ [sq]
          @ ''})-[posted{created_at:'' @ [sq] @ str c @ [sq]
          @ ''}]->(:Post{extId='' @ [sq] @ str i @ [sq]
          @ '', value='' @ [sq] @ escape (t @ [nl, nl] @ h) @ [sq]
          @ ''})-[is_tagged_with]->(:Tag{extId: '' @ [sq] @ str g @ [sq] @ ''})'')
   \<and> formatDiscussionPost (PInt 9) (PStr ''T'') (PStr ''H'') (PInt 7) (PInt 3) (PStr ''2024-01-01'') =
     Inr (''MERGE (:Identity:User{extId='3'})-[posted{created_at:'2024-01-01'}]->(:Post{extId='9', value='T''
          @ [bs] @ ''n'' @ [bs] @ ''nH'})-[is_tagged_with]->(:Tag{extId: '7'})'')"
proof -
  have "formatDiscussionPost (PInt 9) (PStr ''T'') (PStr ''H'') (PInt 7) (PInt 3) (PStr ''2024-01-01'') =
     Inr (''MERGE (:Identity:User{extId='3'})-[posted{created_at:'2024-01-01'}]->(:Post{extId='9', value='T''
          @ [bs] @ ''n'' @ [bs] @ ''nH'})-[is_tagged_with]->(:Tag{extId: '7'})'')"
    by code_simp
  then show ?thesis
    by (simp add: formatDiscussionPost_str quoted_def)
qed

text \<open>
  Claim C4. \<^verbatim>\<open>formatPost(101, "line1\nline2", 3, "2024-01-01", 55)\<close>: the body's newline is
  emitted as the two characters backslash, n.
\<close>

theorem post_with_newline_example:
  "formatPost (PInt 101) (PStr (''line1'' @ [nl] @ ''line2'')) (PInt 3) (PStr ''2024-01-01'') (PInt 55)
     = Inr (''MERGE (:Identity:User{extId='3'})-[posted{created_at:'2024-01-01'}]->(:Post{extId='101', inReplyToExtId='55', value='line1''
            @ [bs] @ ''nline2'})'')"
  by code_simp

text \<open>
  Claim C5. The body of a discussion row is the title, two newline characters, the header,
  and it is this composed text that is handed to the escaping chain: the two separating
  newlines come out escaped as well. Any title or header that is not text raises
  \<^verbatim>\<open>TypeError\<close> instead.
\<close>

theorem discussion_body_composition:
  "discussion_body (PStr title) (PStr header) = Inr (PStr (title @ [nl, nl] @ header))
   \<and> discussion_body (PStr ''T'') (PStr ''H'') = Inr (PStr [CHR ''T'', nl, nl, CHR ''H''])
   \<and> formatDiscussionPost i (PStr title) (PStr header) g u c =
       and_then (escape_val (PStr (title @ [nl, nl] @ header)))
         (\<lambda>val. Inr (''MERGE (:Identity:User{extId='' @ quoted (str u)
          @ ''})-[posted{created_at:'' @ quoted (str c)
          @ ''}]->(:Post{extId='' @ quoted (str i) @ '', value='' @ quoted (str val)
          @ ''})-[is_tagged_with]->(:Tag{extId: '' @ quoted (str g) @ ''})''))
   \<and> escape (title @ [nl, nl] @ header)
       = escape title @ [bs, CHR ''n'', bs, CHR ''n''] @ escape header
   \<and> discussion_body v w =
       (case v of
          PStr a \<Rightarrow> (case w of PStr b \<Rightarrow> Inr (PStr (a @ [nl, nl] @ b)) | _ \<Rightarrow> Inl TypeError)
        | _ \<Rightarrow> Inl TypeError)"
proof -
  have "esc_char nl = [bs, CHR ''n'']"
    by (simp add: esc_char_def)
  then have "escape (title @ [nl, nl] @ header)
       = escape title @ [bs, CHR ''n'', bs, CHR ''n''] @ escape header"
    by (simp add: escape_append escape_Cons)
  moreover note discussion_body_cases [of v w]
  moreover have "discussion_body (PStr title) (PStr header) = Inr (PStr (title @ [nl, nl] @ header))"
    by (rule discussion_body_str)
  moreover have "discussion_body (PStr ''T'') (PStr ''H'') = Inr (PStr [CHR ''T'', nl, nl, CHR ''H''])"
    by (simp add: discussion_body_str)
  moreover have "formatDiscussionPost i (PStr title) (PStr header) g u c =
       and_then (escape_val (PStr (title @ [nl, nl] @ header)))
         (\<lambda>val. Inr (''MERGE (:Identity:User{extId='' @ quoted (str u)
          @ ''})-[posted{created_at:'' @ quoted (str c)
          @ ''}]->(:Post{extId='' @ quoted (str i) @ '', value='' @ quoted (str val)
          @ ''})-[is_tagged_with]->(:Tag{extId: '' @ quoted (str g) @ ''})''))"
    by (simp add: discussion_body_str formatDiscussionPost_def)
  ultimately show ?thesis
    by blast
qed

text \<open>
  Claim C6. Tag and identity lines hold \<^verbatim>\<open>str\<close> of each field between single quotes, and
  \<^verbatim>\<open>str\<close> of a text is the text itself: no escaping is applied. The two examples of the
  specification evaluate as stated.
\<close>

theorem tag_identity_verbatim:
  "formatTag i v = ''MERGE (:Tag{extId='' @ [sq] @ str i @ [sq] @ '', value='' @ [sq] @ str v @ [sq] @ ''})''
   \<and> formatIdentity i e h =
       ''MERGE (:Identity:User{extId='' @ [sq] @ str i @ [sq] @ '', email='' @ [sq] @ str e @ [sq]
         @ '', handle='' @ [sq] @ str h @ [sq] @ ''})''
   \<and> str (PStr s) = s
   \<and> formatTag (PInt 7) (PStr ''General'') = ''MERGE (:Tag{extId='7', value='General'})''
   \<and> formatIdentity (PInt 3) (PStr ''a@b.com'') (PStr ''alice'')
       = ''MERGE (:Identity:User{extId='3', email='a@b.com', handle='alice'})''"
proof -
  have "formatTag (PInt 7) (PStr ''General'') = ''MERGE (:Tag{extId='7', value='General'})''"
    by code_simp
  moreover have "formatIdentity (PInt 3) (PStr ''a@b.com'') (PStr ''alice'')
       = ''MERGE (:Identity:User{extId='3', email='a@b.com', handle='alice'})''"
    by code_simp
  ultimately show ?thesis
    by (simp add: formatTag_def formatIdentity_def quoted_def)
qed

text \<open>
  Claim C7 fails as stated: with one tag row, a discussion row whose title is NULL and a
  post row, line 33 raises \<^verbatim>\<open>TypeError\<close> at the discussion row; only the tag statement has
  been printed, and the post row is never reached.
\<close>

theorem script_abort_skips_rows:
  "script [(PInt 7, PStr ''General'')] []
      [(PInt 9, PNone, PStr ''H'', PInt 7, PInt 3, PStr ''2024-01-01'')]
      [(PInt 101, PStr ''hello'', PInt 3, PStr ''2024-01-01'', PInt 9)]
     = ([''MERGE (:Tag{extId='7', value='General'})''], Some TypeError)"
  by code_simp

text \<open>
  Claim C7, amended. The output is the statements of the rows in the order tags,
  identities, discussions, posts, each stream in delivery order, up to the first row that
  raises; that exception ends the run. When every discussion title and header and every
  post text is text, no row raises and exactly one statement per row is printed.
\<close>

theorem script_one_statement_per_row:
  "script tags ids discs posts
     = (emitted (map tag_stmt tags @ map identity_stmt ids
                  @ map discussion_stmt discs @ map post_stmt posts),
        fault (map tag_stmt tags @ map identity_stmt ids
                  @ map discussion_stmt discs @ map post_stmt posts))
   \<and> (list_all discussion_text discs \<and> list_all post_text posts \<longrightarrow>
        map Inr (fst (script tags ids discs posts))
          = map tag_stmt tags @ map identity_stmt ids
              @ map discussion_stmt discs @ map post_stmt posts
        \<and> snd (script tags ids discs posts) = None
        \<and> length (fst (script tags ids discs posts))
          = length tags + length ids + length discs + length posts)"
proof -
  let ?rs = "results tags ids discs posts"
  have general: "script tags ids discs posts = (emitted ?rs, fault ?rs)"
    by (rule script_results)
  have full: "map Inr (fst (script tags ids discs posts)) = ?rs
        \<and> snd (script tags ids discs posts) = None
        \<and> length (fst (script tags ids discs posts))
          = length tags + length ids + length discs + length posts"
    if ok: "list_all discussion_text discs \<and> list_all post_text posts"
  proof -
    from ok have "list_all (\<lambda>r. \<not> isl r) ?rs"
      by (simp add: results_all_Inr)
    then have e: "map Inr (emitted ?rs) = ?rs \<and> fault ?rs = None"
      by (rule all_Inr_emitted)
    then have "length (map Inr (emitted ?rs) :: (error + string) list) = length ?rs"
      by simp
    then have "length (emitted ?rs) = length tags + length ids + length discs + length posts"
      by (simp add: results_def)
    with e show ?thesis
      by (simp add: general)
  qed
  from general full show ?thesis
    by (simp add: results_def)
qed

text \<open>
  One row per stream, all text: four statements and no exception.
\<close>

theorem script_one_statement_per_row_witness:
  "list_all discussion_text [(PInt 9, PStr ''T'', PStr ''H'', PInt 7, PInt 3, PStr ''2024-01-01'')]
   \<and> list_all post_text [(PInt 101, PStr ''hello'', PInt 3, PStr ''2024-01-01'', PInt 9)]
   \<and> snd (script [(PInt 7, PStr ''General'')] [(PInt 3, PStr ''a@b.com'', PStr ''alice'')]
        [(PInt 9, PStr ''T'', PStr ''H'', PInt 7, PInt 3, PStr ''2024-01-01'')]
        [(PInt 101, PStr ''hello'', PInt 3, PStr ''2024-01-01'', PInt 9)]) = None
   \<and> length (fst (script [(PInt 7, PStr ''General'')] [(PInt 3, PStr ''a@b.com'', PStr ''alice'')]
        [(PInt 9, PStr ''T'', PStr ''H'', PInt 7, PInt 3, PStr ''2024-01-01'')]
        [(PInt 101, PStr ''hello'', PInt 3, PStr ''2024-01-01'', PInt 9)])) = 4"
proof -
  have h: "list_all discussion_text [(PInt 9, PStr ''T'', PStr ''H'', PInt 7, PInt 3, PStr ''2024-01-01'')]
   \<and> list_all post_text [(PInt 101, PStr ''hello'', PInt 3, PStr ''2024-01-01'', PInt 9)]"
    by (simp add: discussion_text_def post_text_def is_text_def)
  let ?out = "script [(PInt 7, PStr ''General'')] [(PInt 3, PStr ''a@b.com'', PStr ''alice'')]
        [(PInt 9, PStr ''T'', PStr ''H'', PInt 7, PInt 3, PStr ''2024-01-01'')]
        [(PInt 101, PStr ''hello'', PInt 3, PStr ''2024-01-01'', PInt 9)]"
  from h script_one_statement_per_row
    [of "[(PInt 7, PStr ''General'')]" "[(PInt 3, PStr ''a@b.com'', PStr ''alice'')]"
        "[(PInt 9, PStr ''T'', PStr ''H'', PInt 7, PInt 3, PStr ''2024-01-01'')]"
        "[(PInt 101, PStr ''hello'', PInt 3, PStr ''2024-01-01'', PInt 9)]"]
  have "snd ?out = None \<and> length (fst ?out) = length [(PInt 7, PStr ''General'')]
      + length [(PInt 3, PStr ''a@b.com'', PStr ''alice'')]
      + length [(PInt 9, PStr ''T'', PStr ''H'', PInt 7, PInt 3, PStr ''2024-01-01'')]
      + length [(PInt 101, PStr ''hello'', PInt 3, PStr ''2024-01-01'', PInt 9)]"
    by blast
  then have "snd ?out = None \<and> length (fst ?out) = 4"
    by simp
  with h show ?thesis
    by blast
qed

text \<open>
  Claim C8 fails as stated: a post row whose text is NULL produces no line; the first
  \<^verbatim>\<open>replace\<close> call raises \<^verbatim>\<open>AttributeError\<close>.
\<close>

theorem null_body_raises:
  "formatPost (PInt 101) PNone (PInt 3) (PStr ''2024-01-01'') (PInt 55) = Inl AttributeError"
  by (simp add: formatPost_def escape_val_none)

text \<open>
  Claim C8, amended. NULL in any field of a tag or identity row, or in the id, tag id,
  user id, creation time or reply id of a discussion or post row, is printed as
  \<^verbatim>\<open>None\<close> between the quotes of that field. NULL in a discussion title or header raises
  \<^verbatim>\<open>TypeError\<close>, and NULL in a post text raises \<^verbatim>\<open>AttributeError\<close>; nothing
  catches either.
\<close>

theorem null_fields:
  "formatTag PNone v = ''MERGE (:Tag{extId='None', value='' @ quoted (str v) @ ''})''
   \<and> formatTag i PNone = ''MERGE (:Tag{extId='' @ quoted (str i) @ '', value='None'})''
   \<and> formatIdentity PNone e h =
       ''MERGE (:Identity:User{extId='None', email='' @ quoted (str e)
         @ '', handle='' @ quoted (str h) @ ''})''
   \<and> formatIdentity i PNone h =
       ''MERGE (:Identity:User{extId='' @ quoted (str i) @ '', email='None', handle=''
         @ quoted (str h) @ ''})''
   \<and> formatIdentity i e PNone =
       ''MERGE (:Identity:User{extId='' @ quoted (str i) @ '', email='' @ quoted (str e)
         @ '', handle='None'})''
   \<and> formatDiscussionPost PNone (PStr t) (PStr hdr) PNone PNone PNone =
       Inr (''MERGE (:Identity:User{extId='None'})-[posted{created_at:'None'}]->(:Post{extId='None', value=''
         @ quoted (escape (t @ [nl, nl] @ hdr)) @ ''})-[is_tagged_with]->(:Tag{extId: 'None'})'')
   \<and> formatPost PNone (PStr body) PNone PNone PNone =
       Inr (''MERGE (:Identity:User{extId='None'})-[posted{created_at:'None'}]->(:Post{extId='None', inReplyToExtId='None', value=''
         @ quoted (escape body) @ ''})'')
   \<and> formatDiscussionPost i PNone header g u c = Inl TypeError
   \<and> formatDiscussionPost i (PStr t) PNone g u c = Inl TypeError
   \<and> formatPost i PNone u c r = Inl AttributeError"
proof -
  have "formatDiscussionPost i PNone header g u c = Inl TypeError"
    by (simp add: formatDiscussionPost_def discussion_body_def)
  moreover have "formatDiscussionPost i (PStr t) PNone g u c = Inl TypeError"
    by (simp add: formatDiscussionPost_def discussion_body_def)
  moreover have "formatPost i PNone u c r = Inl AttributeError"
    by (simp add: formatPost_def escape_val_none)
  ultimately show ?thesis
    by (simp add: formatTag_def formatIdentity_def formatDiscussionPost_str formatPost_str
        quoted_def sq_def)
qed

text \<open>
  Claim C9. The escaped body holds no newline and no tab character, whatever the body.
  Hence, when the other fields render without a newline, the post statement and the
  discussion statement hold no newline: each occupies one line of output.
\<close>

theorem escaped_body_single_line:
  "nl \<notin> set (escape body) \<and> tab \<notin> set (escape body)
   \<and> (nl \<notin> set (str i) \<and> nl \<notin> set (str u) \<and> nl \<notin> set (str c)
        \<and> nl \<notin> set (str r) \<and> nl \<notin> set (str g) \<longrightarrow>
      (\<exists>line. formatPost i (PStr body) u c r = Inr line \<and> nl \<notin> set line)
      \<and> (\<exists>line. formatDiscussionPost i (PStr t) (PStr h) g u c = Inr line \<and> nl \<notin> set line))"
  by (simp add: escape_no_nl [unfolded nl_def] escape_no_tab formatPost_str
      formatDiscussionPost_str quoted_def nl_def sq_def)

text \<open>
  Integer ids, a date, and a body with a newline and a tab.
\<close>

theorem escaped_body_single_line_witness:
  "nl \<notin> set (str (PInt 101)) \<and> nl \<notin> set (str (PInt 3)) \<and> nl \<notin> set (str (PStr ''2024-01-01''))
   \<and> nl \<notin> set (str (PInt 55)) \<and> nl \<notin> set (str (PInt 7))
   \<and> (\<exists>line. formatPost (PInt 101) (PStr (''line1'' @ [nl, tab] @ ''line2'')) (PInt 3)
          (PStr ''2024-01-01'') (PInt 55) = Inr line \<and> nl \<notin> set line)
   \<and> (\<exists>line. formatDiscussionPost (PInt 101) (PStr ''T'') (PStr ''H'') (PInt 7) (PInt 3)
          (PStr ''2024-01-01'') = Inr line \<and> nl \<notin> set line)"
proof -
  have h: "nl \<notin> set (str (PInt 101)) \<and> nl \<notin> set (str (PInt 3)) \<and> nl \<notin> set (str (PStr ''2024-01-01''))
   \<and> nl \<notin> set (str (PInt 55)) \<and> nl \<notin> set (str (PInt 7))"
    by code_simp
  with escaped_body_single_line
    [of "''line1'' @ [nl, tab] @ ''line2''" "PInt 101" "PInt 3" "PStr ''2024-01-01''" "PInt 55"
        "PInt 7" "''T''" "''H''"]
  show ?thesis
    by blast
qed

text \<open>
  Claim C10. A backslash of the body is left as it is, so the one-character body holding a
  newline and the two-character body backslash, n are escaped to the same text; the
  escaping is not injective, and the two bodies give identical post and discussion
  statements.
\<close>

theorem escape_not_injective:
  "[nl] \<noteq> [bs, CHR ''n'']
   \<and> escape [nl] = [bs, CHR ''n'']
   \<and> escape [bs, CHR ''n''] = [bs, CHR ''n'']
   \<and> \<not> inj escape
   \<and> formatPost i (PStr [nl]) u c r = formatPost i (PStr [bs, CHR ''n'']) u c r
   \<and> formatDiscussionPost i (PStr [nl]) (PStr h) g u c
       = formatDiscussionPost i (PStr [bs, CHR ''n'']) (PStr h) g u c"
proof -
  have a: "escape [nl] = [bs, CHR ''n'']"
    by (simp add: escape_single esc_char_def)
  have b: "escape [bs, CHR ''n''] = [bs, CHR ''n'']"
    by (simp add: escape_Cons escape_Nil esc_char_def bs_def nl_def tab_def dq_def)
  have d: "[nl] \<noteq> [bs, CHR ''n'']"
    by simp
  have "\<not> inj escape"
  proof
    assume "inj escape"
    moreover have "escape [nl] = escape [bs, CHR ''n'']"
      using a b by simp
    ultimately have "[nl] = [bs, CHR ''n'']"
      by (rule injD)
    with d show False by simp
  qed
  moreover have e: "escape ([nl] @ rest) = escape ([bs, CHR ''n''] @ rest)" for rest
    using a b by (simp only: escape_append)
  have "formatDiscussionPost i (PStr [nl]) (PStr h) g u c
       = formatDiscussionPost i (PStr [bs, CHR ''n'']) (PStr h) g u c"
    by (simp only: formatDiscussionPost_str e)
  moreover have "formatPost i (PStr [nl]) u c r = formatPost i (PStr [bs, CHR ''n'']) u c r"
    using a b by (simp only: formatPost_str)
  ultimately show ?thesis
    using a b d by blast
qed

end
